theory Spec2Isabelle
  imports Complex_Main
begin

section \<open>The push endpoint of go-replicache (replicache.go)\<close>

text \<open>
  The repository is one file, \<^verbatim>\<open>replicache.go\<close>. It contains the HTTP push handler
  \<^verbatim>\<open>PushHandler\<close>, the transaction wrapper \<^verbatim>\<open>handlePush\<close>, the constructor
  \<^verbatim>\<open>NewReplicache\<close>, and the type declarations \<^verbatim>\<open>ClientInfo\<close>, \<^verbatim>\<open>Mutation\<close>,
  \<^verbatim>\<open>PushRequest\<close>, \<^verbatim>\<open>PullRequest\<close> and the two handler interfaces. There is no
  function for the pull side: \<^verbatim>\<open>PullHandler\<close> and \<^verbatim>\<open>PullRequest\<close> are declared and
  never used.

  The collaborators of the code are Go's \<^verbatim>\<open>database/sql\<close>, \<^verbatim>\<open>encoding/json\<close>,
  \<^verbatim>\<open>net/http\<close> and the user-supplied \<^verbatim>\<open>Handler\<close>. They are modelled by their
  contract, each as a function on an explicit world state, and every call to one
  of them is written to a trace, so that what the code asked of them can be stated.
\<close>

subsection \<open>Errors\<close>

text \<open>
  A Go \<^verbatim>\<open>error\<close> is an opaque value; \<^verbatim>\<open>nil\<close> is \<open>None\<close>. \<open>ErrTxDone\<close> is
  \<^verbatim>\<open>sql.ErrTxDone\<close>, what \<^verbatim>\<open>Commit\<close> and \<^verbatim>\<open>Rollback\<close> return on a transaction
  that has already been committed or rolled back.
\<close>

datatype error = ErrTxDone | Err string

subsection \<open>Data declared in replicache.go\<close>

text \<open>
  \<^verbatim>\<open>Mutation.ID\<close> is a Go \<^verbatim>\<open>int\<close>; the code does no arithmetic on it, so it is an
  \<open>int\<close> here. \<^verbatim>\<open>Args\<close> is a \<^verbatim>\<open>json.RawMessage\<close>, a byte string. \<^verbatim>\<open>Timestamp\<close> is a
  \<^verbatim>\<open>float64\<close> decoded from a JSON number, hence a finite value, which is a real
  number; the code never computes with it.
\<close>

record Mutation =
  ClientID :: string
  ID :: int
  Name :: string
  Args :: string
  Timestamp :: real

record ClientInfo =
  Auth :: string
  ClientGroupID :: string
  ProfileID :: string
  SchemaVersion :: string

subsection \<open>The database: \<^verbatim>\<open>sql.DB\<close> and \<^verbatim>\<open>sql.Tx\<close>\<close>

datatype IsolationLevel =
  LevelDefault | LevelReadUncommitted | LevelReadCommitted | LevelWriteCommitted
  | LevelRepeatableRead | LevelSnapshot | LevelSerializable | LevelLinearizable

record TxOptions =
  Isolation :: IsolationLevel

text \<open>
  A transaction handle: its identity, the isolation level it was opened at, its
  private working copy of the stored data (of type \<open>'d\<close>, which the code never
  looks into), and whether it has been finished.
\<close>

record 'd Tx =
  tx_id :: nat
  tx_isolation :: IsolationLevel
  tx_working :: 'd
  tx_done :: bool

text \<open>
  \<^verbatim>\<open>PushRequest\<close> embeds \<^verbatim>\<open>ClientInfo\<close>, whose fields are promoted; \<^verbatim>\<open>PullRequest\<close>
  likewise.
\<close>

record 'd PushRequest = ClientInfo +
  Mutations :: "Mutation list"
  Tx :: "'d Tx"

record 'd PullRequest = ClientInfo +
  PullTx :: "'d Tx"

text \<open>Every call the code makes to a collaborator, in order.\<close>

datatype 'd event =
  EvBeginTx TxOptions
  | EvHandlePush "'d PushRequest"
  | EvCommit nat
  | EvRollback nat

text \<open>
  The world outside one request: the committed data, the next unused transaction
  identity, and the trace of calls.
\<close>

record 'd World =
  durable :: 'd
  next_tx :: nat
  trace :: "'d event list"

text \<open>
  \<^verbatim>\<open>sql.DB\<close>: whether \<^verbatim>\<open>BeginTx\<close> and \<^verbatim>\<open>Commit\<close> fail is up to the database
  (connection loss, cancelled context, serialization conflict, a constraint
  checked at commit), so each is an oracle of the database: of the number of
  calls made so far, and for \<^verbatim>\<open>Commit\<close> also of the transaction.
\<close>

record 'd DB =
  begin_err :: "nat \<Rightarrow> error option"
  commit_err :: "nat \<Rightarrow> 'd Tx \<Rightarrow> error option"

subsection \<open>The Handler and the \<^verbatim>\<open>Replicache\<close> struct\<close>

text \<open>
  \<^verbatim>\<open>HandlePush(ctx, pr) error\<close>: the handler reads the request and works on the
  stored data through the transaction \<^verbatim>\<open>pr.Tx\<close>. It returns its error and the
  transaction's working copy as it leaves it (which may hold partial changes when
  it fails). The handler is taken to use only that transaction and to leave it
  open.
\<close>

type_synonym 'd handler = "'d PushRequest \<Rightarrow> error option \<times> 'd"

text \<open>
  The struct's \<^verbatim>\<open>logger\<close> writes to \<^verbatim>\<open>io.Discard\<close> and is left out;
  \<^verbatim>\<open>clientPurgeDuration\<close> is a \<^verbatim>\<open>time.Duration\<close>, a count of nanoseconds.
\<close>

record 'd Replicache =
  db :: "'d DB"
  handler :: "'d handler"
  clientOnPush :: bool
  clientOnPull :: bool
  clientPurgeDuration :: int

definition newDefaultInstance :: "'d DB \<Rightarrow> 'd handler \<Rightarrow> 'd Replicache" where
  "newDefaultInstance d h =
     \<lparr>db = d, handler = h, clientOnPush = False, clientOnPull = False,
      clientPurgeDuration = 0\<rparr>"

fun apply_options ::
  "'d Replicache \<Rightarrow> ('d Replicache \<Rightarrow> error option \<times> 'd Replicache) list
     \<Rightarrow> error + 'd Replicache" where
  "apply_options r [] = Inr r"
| "apply_options r (opt # options) =
     (case opt r of
        (Some err, _) \<Rightarrow> Inl err
      | (None, r') \<Rightarrow> apply_options r' options)"

definition NewReplicache ::
  "'d DB \<Rightarrow> 'd handler \<Rightarrow> ('d Replicache \<Rightarrow> error option \<times> 'd Replicache) list
     \<Rightarrow> error + 'd Replicache" where
  "NewReplicache d h options = apply_options (newDefaultInstance d h) options"

subsection \<open>Calls to the collaborators\<close>

definition record_event :: "'d event \<Rightarrow> 'd World \<Rightarrow> 'd World" where
  "record_event ev w = w\<lparr>trace := trace w @ [ev]\<rparr>"

text \<open>
  \<^verbatim>\<open>db.BeginTx(ctx, opts)\<close>: on success a fresh transaction over the committed data.
\<close>

definition BeginTx :: "'d DB \<Rightarrow> TxOptions \<Rightarrow> 'd World \<Rightarrow> (error + 'd Tx) \<times> 'd World" where
  "BeginTx d opts w =
     (let w1 = record_event (EvBeginTx opts) w in
      case begin_err d (length (trace w)) of
        Some err \<Rightarrow> (Inl err, w1)
      | None \<Rightarrow>
          (Inr \<lparr>tx_id = next_tx w, tx_isolation = Isolation opts,
                tx_working = durable w, tx_done = False\<rparr>,
           w1\<lparr>next_tx := Suc (next_tx w)\<rparr>))"

text \<open>
  \<^verbatim>\<open>tx.Commit()\<close>: on a finished transaction \<^verbatim>\<open>ErrTxDone\<close>; otherwise the
  transaction is finished, and its working copy becomes the committed data unless
  the database reports a failure.
\<close>

definition Commit :: "'d DB \<Rightarrow> 'd Tx \<Rightarrow> 'd World \<Rightarrow> error option \<times> 'd Tx \<times> 'd World" where
  "Commit d tx w =
     (let w1 = record_event (EvCommit (tx_id tx)) w in
      if tx_done tx then (Some ErrTxDone, tx, w1)
      else case commit_err d (length (trace w)) tx of
        Some err \<Rightarrow> (Some err, tx\<lparr>tx_done := True\<rparr>, w1)
      | None \<Rightarrow> (None, tx\<lparr>tx_done := True\<rparr>, w1\<lparr>durable := tx_working tx\<rparr>))"

text \<open>
  \<^verbatim>\<open>tx.Rollback()\<close>: on a finished transaction \<^verbatim>\<open>ErrTxDone\<close> and nothing
  happens; otherwise the working copy is dropped.
\<close>

definition Rollback :: "'d Tx \<Rightarrow> 'd World \<Rightarrow> error option \<times> 'd Tx \<times> 'd World" where
  "Rollback tx w =
     (let w1 = record_event (EvRollback (tx_id tx)) w in
      if tx_done tx then (Some ErrTxDone, tx, w1)
      else (None, tx\<lparr>tx_done := True\<rparr>, w1))"

text \<open>
  \<^verbatim>\<open>rep.handler.HandlePush(ctx, pr)\<close>: the call is recorded with its request.
\<close>

definition HandlePush ::
  "'d handler \<Rightarrow> 'd PushRequest \<Rightarrow> 'd World \<Rightarrow> error option \<times> 'd Tx \<times> 'd World" where
  "HandlePush h pr w =
     (case h pr of (err, d') \<Rightarrow>
        (err, (Tx pr)\<lparr>tx_working := d'\<rparr>,
         record_event (EvHandlePush pr) w))"

subsection \<open>\<^verbatim>\<open>handlePush\<close>\<close>

text \<open>
  \<^verbatim>\<open>defer tx.Rollback()\<close> runs on every return after a successful \<^verbatim>\<open>BeginTx\<close>; its
  result is discarded.
\<close>

definition deferred_Rollback :: "'d Tx \<Rightarrow> 'd World \<Rightarrow> 'd World" where
  "deferred_Rollback tx w = snd (snd (Rollback tx w))"

definition handlePush ::
  "'d Replicache \<Rightarrow> ClientInfo \<Rightarrow> Mutation list \<Rightarrow> 'd World \<Rightarrow> error option \<times> 'd World" where
  "handlePush rep info mutations w =
     (case BeginTx (db rep) \<lparr>Isolation = LevelSerializable\<rparr> w of
        (Inl err, w1) \<Rightarrow> (Some err, w1)
      | (Inr tx, w1) \<Rightarrow>
          (case HandlePush (handler rep)
                  (ClientInfo.extend info \<lparr>Mutations = mutations, Tx = tx\<rparr>) w1 of
             (Some err, tx2, w2) \<Rightarrow> (Some err, deferred_Rollback tx2 w2)
           | (None, tx2, w2) \<Rightarrow>
               (case Commit (db rep) tx2 w2 of
                  (Some err, tx3, w3) \<Rightarrow> (Some err, deferred_Rollback tx3 w3)
                | (None, tx3, w3) \<Rightarrow> (None, deferred_Rollback tx3 w3))))"

subsection \<open>\<^verbatim>\<open>PushHandler\<close>\<close>

text \<open>
  The anonymous struct the request body is decoded into.
\<close>

record PushBody =
  PushVersion :: int
  BodyClientGroupID :: string
  BodyMutations :: "Mutation list"
  BodyProfileID :: string
  BodySchemaVersion :: string

text \<open>
  \<^verbatim>\<open>http.Header\<close> maps a header name to its values; \<^verbatim>\<open>Get\<close> returns the first
  value, or the empty string when there is none.
\<close>

type_synonym Header = "string \<Rightarrow> string list option"

definition Header_Get :: "Header \<Rightarrow> string \<Rightarrow> string" where
  "Header_Get h key =
     (case h key of
        None \<Rightarrow> []
      | Some [] \<Rightarrow> []
      | Some (v # _) \<Rightarrow> v)"

record 'b Request =
  Header :: Header
  Body :: 'b

text \<open>
  \<^verbatim>\<open>http.ResponseWriter\<close>: the status code once \<^verbatim>\<open>WriteHeader\<close> has been called
  (later calls are ignored by \<^verbatim>\<open>net/http\<close>), and the body bytes written.
\<close>

record ResponseWriter =
  status :: "nat option"
  written :: string

definition StatusOK :: nat where
  "StatusOK = 200"

definition StatusInternalServerError :: nat where
  "StatusInternalServerError = 500"

definition WriteHeader :: "ResponseWriter \<Rightarrow> nat \<Rightarrow> ResponseWriter" where
  "WriteHeader rw code = (if status rw = None then rw\<lparr>status := Some code\<rparr> else rw)"

definition new_response :: ResponseWriter where
  "new_response = \<lparr>status = None, written = []\<rparr>"

text \<open>
  \<^verbatim>\<open>json.NewDecoder(r.Body).Decode(&req)\<close> is the parameter \<open>decode\<close>: it returns its
  error and the struct as it has filled it (which starts zeroed, and may be partly
  filled when decoding fails).
\<close>

type_synonym 'b decoder = "'b \<Rightarrow> error option \<times> PushBody"

definition PushHandler ::
  "'b decoder \<Rightarrow> 'd Replicache \<Rightarrow> ResponseWriter \<Rightarrow> 'b Request \<Rightarrow> 'd World
     \<Rightarrow> ResponseWriter \<times> 'd World" where
  "PushHandler decode rep rw r w =
     (case decode (Body r) of (err, req) \<Rightarrow>
        if err \<noteq> None \<or> PushVersion req \<noteq> 1
        then (WriteHeader rw StatusInternalServerError, w)
        else
          (case handlePush rep
                  \<lparr>Auth = Header_Get (Header r) ''Authorization'',
                   ClientGroupID = BodyClientGroupID req,
                   ProfileID = BodyProfileID req,
                   SchemaVersion = BodySchemaVersion req\<rparr>
                  (BodyMutations req) w of
             (Some err, w') \<Rightarrow> (WriteHeader rw StatusInternalServerError, w')
           | (None, w') \<Rightarrow> (WriteHeader rw StatusOK, w')))"

section \<open>Vocabulary for the properties\<close>

text \<open>The options \<^verbatim>\<open>handlePush\<close> passes to \<^verbatim>\<open>BeginTx\<close>.\<close>

definition serializable :: TxOptions where
  "serializable = \<lparr>Isolation = LevelSerializable\<rparr>"

text \<open>The transaction that a successful \<^verbatim>\<open>BeginTx\<close> of \<^verbatim>\<open>handlePush\<close> returns in world \<open>w\<close>.\<close>

definition fresh_tx :: "'d World \<Rightarrow> 'd Tx" where
  "fresh_tx w =
     \<lparr>tx_id = next_tx w, tx_isolation = LevelSerializable, tx_working = durable w,
      tx_done = False\<rparr>"

text \<open>The request \<^verbatim>\<open>handlePush\<close> builds for the Handler in world \<open>w\<close>.\<close>

definition push_request :: "ClientInfo \<Rightarrow> Mutation list \<Rightarrow> 'd World \<Rightarrow> 'd PushRequest" where
  "push_request info ms w = ClientInfo.extend info \<lparr>Mutations = ms, Tx = fresh_tx w\<rparr>"

text \<open>The calls made between world \<open>w\<close> and a later world \<open>w'\<close>.\<close>

definition new_events :: "'d World \<Rightarrow> 'd World \<Rightarrow> 'd event list" where
  "new_events w w' = drop (length (trace w)) (trace w')"

fun is_begin :: "'d event \<Rightarrow> bool" where
  "is_begin (EvBeginTx _) = True"
| "is_begin _ = False"

fun is_handle_push :: "'d event \<Rightarrow> bool" where
  "is_handle_push (EvHandlePush _) = True"
| "is_handle_push _ = False"

fun is_commit :: "'d event \<Rightarrow> bool" where
  "is_commit (EvCommit _) = True"
| "is_commit _ = False"

text \<open>The \<^verbatim>\<open>ClientInfo\<close> that \<^verbatim>\<open>PushHandler\<close> builds from a request and its decoded body.\<close>

definition request_info :: "'b Request \<Rightarrow> PushBody \<Rightarrow> ClientInfo" where
  "request_info r req =
     \<lparr>Auth = Header_Get (Header r) ''Authorization'',
      ClientGroupID = BodyClientGroupID req,
      ProfileID = BodyProfileID req,
      SchemaVersion = BodySchemaVersion req\<rparr>"

text \<open>Forgetting the timestamps: of a mutation, of a request, of a recorded call.\<close>

definition erase_timestamp :: "Mutation \<Rightarrow> Mutation" where
  "erase_timestamp m = m\<lparr>Timestamp := 0\<rparr>"

fun erase_event :: "'d event \<Rightarrow> 'd event" where
  "erase_event (EvHandlePush pr) =
     EvHandlePush (pr\<lparr>Mutations := map erase_timestamp (Mutations pr)\<rparr>)"
| "erase_event ev = ev"

section \<open>An example application\<close>

text \<open>
  A store and Handlers as a user of the library could supply them, for the
  concrete runs below. The store keeps, for each client, its group and the last
  mutation ID the application has recorded for it, and the names of the mutations
  applied so far.
\<close>

record Store =
  clients :: "(string \<times> string \<times> int) list"
  applied :: "string list"

text \<open>A Handler that applies every mutation it is given.\<close>

definition apply_all_handler :: "Store handler" where
  "apply_all_handler pr =
     (None, (tx_working (Tx pr))\<lparr>applied := applied (tx_working (Tx pr)) @ map Name (Mutations pr)\<rparr>)"

text \<open>A Handler that applies the first mutation and then fails.\<close>

definition failing_handler :: "Store handler" where
  "failing_handler pr =
     (Some (Err ''constraint violated''),
      (tx_working (Tx pr))\<lparr>applied := applied (tx_working (Tx pr)) @ map Name (take 1 (Mutations pr))\<rparr>)"

definition reliable_db :: "Store DB" where
  "reliable_db = \<lparr>begin_err = (\<lambda>_. None), commit_err = (\<lambda>_ _. None)\<rparr>"

definition example_mutation :: "string \<Rightarrow> int \<Rightarrow> real \<Rightarrow> Mutation" where
  "example_mutation c i t =
     \<lparr>ClientID = c, ID = i, Name = ''addTodo'', Args = ''{}'', Timestamp = t\<rparr>"

definition example_info :: "string \<Rightarrow> ClientInfo" where
  "example_info g =
     \<lparr>Auth = ''Bearer t0k3n'', ClientGroupID = g, ProfileID = ''P1'', SchemaVersion = ''1''\<rparr>"

text \<open>Client \<open>C1\<close> is a member of group \<open>G1\<close> and the store has recorded \<open>n\<close> as its last mutation.\<close>

definition example_world :: "int \<Rightarrow> Store World" where
  "example_world n =
     \<lparr>durable = \<lparr>clients = [(''C1'', ''G1'', n)], applied = []\<rparr>, next_tx = 0, trace = []\<rparr>"

text \<open>
  A stand-in for the JSON decoder on bodies that are already parsed: \<open>None\<close> is a
  body that is not JSON of the expected shape.
\<close>

definition example_decode :: "PushBody option decoder" where
  "example_decode b =
     (case b of
        None \<Rightarrow> (Some (Err ''invalid character''),
                 \<lparr>PushVersion = 0, BodyClientGroupID = [], BodyMutations = [],
                  BodyProfileID = [], BodySchemaVersion = []\<rparr>)
      | Some req \<Rightarrow> (None, req))"

definition example_body :: "int \<Rightarrow> string \<Rightarrow> Mutation list \<Rightarrow> PushBody" where
  "example_body v g ms =
     \<lparr>PushVersion = v, BodyClientGroupID = g, BodyMutations = ms,
      BodyProfileID = ''P1'', BodySchemaVersion = ''1''\<rparr>"

definition example_request :: "PushBody option \<Rightarrow> PushBody option Request" where
  "example_request b =
     \<lparr>Header = [''Authorization'' \<mapsto> [''Bearer t0k3n'']], Body = b\<rparr>"






section \<open>What one call of \<^verbatim>\<open>handlePush\<close> does\<close>

text \<open>
  The four ways through \<^verbatim>\<open>handlePush\<close>: \<^verbatim>\<open>BeginTx\<close> fails; the Handler fails; \<^verbatim>\<open>Commit\<close>
  fails; everything succeeds.
\<close>

lemmas handlePush_unfold =
  handlePush_def BeginTx_def HandlePush_def Commit_def Rollback_def deferred_Rollback_def
  record_event_def serializable_def push_request_def fresh_tx_def
  ClientInfo.extend_def Let_def

lemma handlePush_begin_fails:
  assumes "begin_err (db rep) (length (trace w)) = Some e"
  shows "handlePush rep info ms w = (Some e, w\<lparr>trace := trace w @ [EvBeginTx serializable]\<rparr>)"
  using assms by (simp add: handlePush_unfold)

lemma handlePush_handler_fails:
  assumes "begin_err (db rep) (length (trace w)) = None"
    and "handler rep (push_request info ms w) = (Some e, d')"
  shows "handlePush rep info ms w =
     (Some e, w\<lparr>next_tx := Suc (next_tx w),
        trace := trace w @ [EvBeginTx serializable, EvHandlePush (push_request info ms w),
                           EvRollback (next_tx w)]\<rparr>)"
  using assms by (simp add: handlePush_unfold)

lemma handlePush_commit_fails:
  assumes "begin_err (db rep) (length (trace w)) = None"
    and "handler rep (push_request info ms w) = (None, d')"
    and "commit_err (db rep) (length (trace w) + 2) ((fresh_tx w)\<lparr>tx_working := d'\<rparr>) = Some e"
  shows "handlePush rep info ms w =
     (Some e, w\<lparr>next_tx := Suc (next_tx w),
        trace := trace w @ [EvBeginTx serializable, EvHandlePush (push_request info ms w),
                           EvCommit (next_tx w), EvRollback (next_tx w)]\<rparr>)"
  using assms by (simp add: handlePush_unfold)

lemma handlePush_commits:
  assumes "begin_err (db rep) (length (trace w)) = None"
    and "handler rep (push_request info ms w) = (None, d')"
    and "commit_err (db rep) (length (trace w) + 2) ((fresh_tx w)\<lparr>tx_working := d'\<rparr>) = None"
  shows "handlePush rep info ms w =
     (None, w\<lparr>durable := d', next_tx := Suc (next_tx w),
        trace := trace w @ [EvBeginTx serializable, EvHandlePush (push_request info ms w),
                           EvCommit (next_tx w), EvRollback (next_tx w)]\<rparr>)"
  using assms by (simp add: handlePush_unfold)

text \<open>Every call of \<^verbatim>\<open>handlePush\<close> goes one of the four ways.\<close>

lemma handlePush_cases:
  obtains
    (begin_fails) e where "begin_err (db rep) (length (trace w)) = Some e"
  | (handler_fails) e d' where "begin_err (db rep) (length (trace w)) = None"
      and "handler rep (push_request info ms w) = (Some e, d')"
  | (commit_fails) e d' where "begin_err (db rep) (length (trace w)) = None"
      and "handler rep (push_request info ms w) = (None, d')"
      and "commit_err (db rep) (length (trace w) + 2) ((fresh_tx w)\<lparr>tx_working := d'\<rparr>) = Some e"
  | (commits) d' where "begin_err (db rep) (length (trace w)) = None"
      and "handler rep (push_request info ms w) = (None, d')"
      and "commit_err (db rep) (length (trace w) + 2) ((fresh_tx w)\<lparr>tx_working := d'\<rparr>) = None"
proof (cases "begin_err (db rep) (length (trace w))")
  case (Some e)
  then show ?thesis by (rule begin_fails)
next
  case None
  obtain r d' where h: "handler rep (push_request info ms w) = (r, d')"
    by (cases "handler rep (push_request info ms w)")
  show ?thesis
  proof (cases r)
    case (Some e)
    with None h show ?thesis by (auto intro: handler_fails)
  next
    case r: None
    show ?thesis
    proof (cases "commit_err (db rep) (length (trace w) + 2) ((fresh_tx w)\<lparr>tx_working := d'\<rparr>)")
      case (Some e)
      with None h r show ?thesis by (auto intro: commit_fails)
    next
      case c: None
      with None h r show ?thesis by (auto intro: commits)
    qed
  qed
qed

lemma new_events_append [simp]:
  "new_events w (w\<lparr>trace := trace w @ evs\<rparr>) = evs"
  "new_events w (w\<lparr>next_tx := n, trace := trace w @ evs\<rparr>) = evs"
  "new_events w (w\<lparr>durable := d, next_tx := n, trace := trace w @ evs\<rparr>) = evs"
  by (simp_all add: new_events_def)

section \<open>Properties of \<^verbatim>\<open>handlePush\<close>\<close>

text \<open>
  C3. Atomic batch on Handler error. In every push in which the Handler is called
  and returns an error \<open>e\<close>, \<^verbatim>\<open>handlePush\<close> returns \<open>e\<close>, \<^verbatim>\<open>Commit\<close> is not called,
  the transaction is rolled back and the committed data are what they were before
  the push, whatever the Handler had changed in the transaction before failing.
  And \<^verbatim>\<open>Commit\<close> is called only in a push in which the transaction was opened and
  the Handler returned no error.
\<close>

theorem handlePush_handler_error_atomic:
  assumes "handlePush rep info ms w = (r, w')"
  shows "(begin_err (db rep) (length (trace w)) = None \<and>
          fst (handler rep (push_request info ms w)) = Some e
            \<longrightarrow> r = Some e \<and> durable w' = durable w
               \<and> filter is_commit (new_events w w') = []
               \<and> EvRollback (next_tx w) \<in> set (new_events w w'))
       \<and> (filter is_commit (new_events w w') \<noteq> []
            \<longrightarrow> begin_err (db rep) (length (trace w)) = None
               \<and> fst (handler rep (push_request info ms w)) = None)"
proof (cases rule: handlePush_cases [where rep = rep and w = w and info = info and ms = ms])
  case (begin_fails e')
  from handlePush_begin_fails [OF this, of info ms] assms begin_fails show ?thesis by auto
next
  case (handler_fails e' d')
  from handlePush_handler_fails [OF this] assms handler_fails show ?thesis by auto
next
  case (commit_fails e' d')
  from handlePush_commit_fails [OF this] assms commit_fails show ?thesis by auto
next
  case (commits d')
  from handlePush_commits [OF this] assms commits show ?thesis by auto
qed

text \<open>
  A run of it: the Handler applies the first of two mutations in the transaction
  and then fails; the push returns the Handler's error and the store is as before.
\<close>

theorem handlePush_handler_error_atomic_witness:
  "applied (snd (failing_handler
        (push_request (example_info ''G1'')
           [example_mutation ''C1'' 1 0, example_mutation ''C1'' 2 0] (example_world 0))))
       = [''addTodo'']
   \<and> handlePush (newDefaultInstance reliable_db failing_handler) (example_info ''G1'')
        [example_mutation ''C1'' 1 0, example_mutation ''C1'' 2 0] (example_world 0)
       = (Some (Err ''constraint violated''),
          \<lparr>durable = \<lparr>clients = [(''C1'', ''G1'', 0)], applied = []\<rparr>, next_tx = 1,
           trace = [EvBeginTx serializable,
                    EvHandlePush (push_request (example_info ''G1'')
                      [example_mutation ''C1'' 1 0, example_mutation ''C1'' 2 0]
                      (example_world 0)),
                    EvRollback 0]\<rparr>)
   \<and> durable (example_world 0) = \<lparr>clients = [(''C1'', ''G1'', 0)], applied = []\<rparr>"
proof -
  let ?rep = "newDefaultInstance reliable_db failing_handler"
  let ?ms = "[example_mutation ''C1'' 1 0, example_mutation ''C1'' 2 0]"
  let ?pr = "push_request (example_info ''G1'') ?ms (example_world 0)"
  let ?w' = "\<lparr>durable = \<lparr>clients = [(''C1'', ''G1'', 0)], applied = []\<rparr>, next_tx = 1,
             trace = [EvBeginTx serializable, EvHandlePush ?pr, EvRollback 0]\<rparr>"
  have run: "handlePush ?rep (example_info ''G1'') ?ms (example_world 0)
               = (Some (Err ''constraint violated''), ?w')"
    by (simp add: handlePush_unfold newDefaultInstance_def reliable_db_def failing_handler_def
        example_world_def)
  have opened: "begin_err (db ?rep) (length (trace (example_world 0))) = None"
    by (simp add: newDefaultInstance_def reliable_db_def)
  have fails: "fst (handler ?rep ?pr) = Some (Err ''constraint violated'')"
    by (simp add: newDefaultInstance_def failing_handler_def)
  have partial: "applied (snd (failing_handler ?pr)) = [''addTodo'']"
    by (simp add: failing_handler_def push_request_def fresh_tx_def ClientInfo.extend_def
        example_world_def example_mutation_def)
  have before: "durable (example_world 0) = \<lparr>clients = [(''C1'', ''G1'', 0)], applied = []\<rparr>"
    by (simp add: example_world_def)
  from handlePush_handler_error_atomic [OF run, of "Err ''constraint violated''"] opened fails
  have "durable ?w' = durable (example_world 0)"
    by blast
  with run partial before show ?thesis
    by simp
qed

text \<open>
  C5. One serializable transaction per push. Every call of \<^verbatim>\<open>handlePush\<close> calls
  \<^verbatim>\<open>BeginTx\<close> exactly once, with isolation level serializable; every call of the
  Handler in it carries the very transaction that this \<^verbatim>\<open>BeginTx\<close> returned, opened
  at serializable isolation; every \<^verbatim>\<open>Commit\<close> and \<^verbatim>\<open>Rollback\<close> in it is on that
  transaction. When \<^verbatim>\<open>BeginTx\<close> succeeds, exactly one transaction has been opened
  and the Handler is called exactly once; when it fails, none has and the Handler
  is not called.
\<close>

theorem handlePush_one_serializable_tx:
  assumes "handlePush rep info ms w = (r, w')"
  shows "filter is_begin (new_events w w') = [EvBeginTx \<lparr>Isolation = LevelSerializable\<rparr>]
       \<and> (\<forall>pr. EvHandlePush pr \<in> set (new_events w w')
             \<longrightarrow> fst (BeginTx (db rep) \<lparr>Isolation = LevelSerializable\<rparr> w) = Inr (Tx pr)
               \<and> tx_isolation (Tx pr) = LevelSerializable)
       \<and> (\<forall>n. EvCommit n \<in> set (new_events w w') \<or> EvRollback n \<in> set (new_events w w')
             \<longrightarrow> begin_err (db rep) (length (trace w)) = None \<and> n = next_tx w)
       \<and> (if begin_err (db rep) (length (trace w)) = None
          then next_tx w' = Suc (next_tx w)
             \<and> length (filter is_handle_push (new_events w w')) = 1
          else next_tx w' = next_tx w \<and> filter is_handle_push (new_events w w') = [])"
proof (cases rule: handlePush_cases [where rep = rep and w = w and info = info and ms = ms])
  case (begin_fails e')
  from handlePush_begin_fails [OF this, of info ms] assms begin_fails show ?thesis
    by (auto simp: serializable_def)
next
  case (handler_fails e' d')
  from handlePush_handler_fails [OF this] assms handler_fails show ?thesis
    by (auto simp: serializable_def BeginTx_def push_request_def fresh_tx_def
        ClientInfo.extend_def Let_def)
next
  case (commit_fails e' d')
  from handlePush_commit_fails [OF this] assms commit_fails show ?thesis
    by (auto simp: serializable_def BeginTx_def push_request_def fresh_tx_def
        ClientInfo.extend_def Let_def)
next
  case (commits d')
  from handlePush_commits [OF this] assms commits show ?thesis
    by (auto simp: serializable_def BeginTx_def push_request_def fresh_tx_def
        ClientInfo.extend_def Let_def)
qed

text \<open>A run of it: a push that commits, with its four calls.\<close>

theorem handlePush_one_serializable_tx_witness:
  "handlePush (newDefaultInstance reliable_db apply_all_handler) (example_info ''G1'')
       [example_mutation ''C1'' 1 0] (example_world 0)
     = (None,
        \<lparr>durable = \<lparr>clients = [(''C1'', ''G1'', 0)], applied = [''addTodo'']\<rparr>, next_tx = 1,
         trace = [EvBeginTx serializable,
                  EvHandlePush (push_request (example_info ''G1'')
                     [example_mutation ''C1'' 1 0] (example_world 0)),
                  EvCommit 0, EvRollback 0]\<rparr>)
   \<and> fst (BeginTx (db (newDefaultInstance reliable_db apply_all_handler))
          \<lparr>Isolation = LevelSerializable\<rparr> (example_world 0))
       = Inr (Tx (push_request (example_info ''G1'') [example_mutation ''C1'' 1 0]
                   (example_world 0) :: Store PushRequest))"
proof -
  let ?rep = "newDefaultInstance reliable_db apply_all_handler"
  let ?ms = "[example_mutation ''C1'' 1 0]"
  let ?w' = "\<lparr>durable = \<lparr>clients = [(''C1'', ''G1'', 0)], applied = [''addTodo'']\<rparr>, next_tx = 1,
         trace = [EvBeginTx serializable,
                  EvHandlePush (push_request (example_info ''G1'') ?ms (example_world 0)),
                  EvCommit 0, EvRollback 0]\<rparr>"
  have run: "handlePush ?rep (example_info ''G1'') ?ms (example_world 0) = (None, ?w')"
    by (simp add: handlePush_unfold newDefaultInstance_def reliable_db_def apply_all_handler_def
        example_world_def example_mutation_def)
  have ev: "EvHandlePush (push_request (example_info ''G1'') ?ms (example_world 0))
              \<in> set (new_events (example_world 0) ?w')"
    by (simp add: new_events_def example_world_def)
  from handlePush_one_serializable_tx [OF run] ev run show ?thesis
    by blast
qed

section \<open>Properties of \<^verbatim>\<open>PushHandler\<close>\<close>

text \<open>
  The two ways through \<^verbatim>\<open>PushHandler\<close>: the request is refused before
  \<^verbatim>\<open>handlePush\<close>, or \<^verbatim>\<open>handlePush\<close> runs and its result picks the status.
\<close>

lemma PushHandler_rejects:
  assumes "fst (decode (Body r)) \<noteq> None \<or> PushVersion (snd (decode (Body r))) \<noteq> 1"
  shows "PushHandler decode rep rw r w = (WriteHeader rw StatusInternalServerError, w)"
  using assms by (auto simp: PushHandler_def split: prod.splits)

lemma PushHandler_accepts:
  assumes "fst (decode (Body r)) = None" and "PushVersion (snd (decode (Body r))) = 1"
    and "handlePush rep (request_info r (snd (decode (Body r))))
           (BodyMutations (snd (decode (Body r)))) w = (res, w')"
  shows "PushHandler decode rep rw r w =
     (WriteHeader rw (if res = None then StatusOK else StatusInternalServerError), w')"
  using assms by (auto simp: PushHandler_def request_info_def split: prod.splits option.splits)

lemma new_events_self [simp]: "new_events w w = []"
  by (simp add: new_events_def)

lemmas example_unfold =
  newDefaultInstance_def reliable_db_def apply_all_handler_def example_world_def
  example_mutation_def example_info_def example_decode_def example_body_def
  example_request_def

lemmas PushHandler_unfold =
  PushHandler_def WriteHeader_def new_response_def StatusOK_def StatusInternalServerError_def
  Header_Get_def

text \<open>
  C6. Protocol version and status codes of the push endpoint. Answering through a
  fresh response writer: a request whose decoded \<^verbatim>\<open>pushVersion\<close> is not 1 gets
  status 500 and \<^verbatim>\<open>handlePush\<close> is not run (the world is untouched); the status is
  200 exactly when the body decoded, the version is 1 and \<^verbatim>\<open>handlePush\<close> returned no
  error; in every other case it is 500; and no body is ever written.
\<close>

theorem PushHandler_status_codes:
  assumes "PushHandler decode rep new_response r w = (rw', w')"
  shows "(PushVersion (snd (decode (Body r))) \<noteq> 1 \<longrightarrow> status rw' = Some 500 \<and> w' = w)
       \<and> (status rw' = Some 200 \<longleftrightarrow>
            fst (decode (Body r)) = None \<and> PushVersion (snd (decode (Body r))) = 1
            \<and> fst (handlePush rep (request_info r (snd (decode (Body r))))
                    (BodyMutations (snd (decode (Body r)))) w) = None)
       \<and> (status rw' \<noteq> Some 200 \<longrightarrow> status rw' = Some 500)
       \<and> written rw' = []"
proof (cases "fst (decode (Body r)) \<noteq> None \<or> PushVersion (snd (decode (Body r))) \<noteq> 1")
  case True
  from PushHandler_rejects [where decode = decode and r = r and rep = rep and rw = new_response
      and w = w, OF True] assms True show ?thesis
    by (auto simp: WriteHeader_def new_response_def StatusInternalServerError_def)
next
  case False
  obtain res w1 where hp: "handlePush rep (request_info r (snd (decode (Body r))))
           (BodyMutations (snd (decode (Body r)))) w = (res, w1)"
    by (cases "handlePush rep (request_info r (snd (decode (Body r))))
           (BodyMutations (snd (decode (Body r)))) w")
  from False have ok: "fst (decode (Body r)) = None" "PushVersion (snd (decode (Body r))) = 1"
    by auto
  from PushHandler_accepts [where decode = decode and r = r and rw = new_response, OF ok hp] assms ok hp show ?thesis
    by (cases res) (auto simp: WriteHeader_def new_response_def StatusInternalServerError_def
        StatusOK_def)
qed

text \<open>
  Runs of it: version 2 is refused with 500 and no effect; version 1 with a Handler
  that succeeds gives 200; version 1 with a Handler that fails gives 500.
\<close>

theorem PushHandler_status_codes_witness:
  "status (fst (PushHandler example_decode (newDefaultInstance reliable_db apply_all_handler)
        new_response
        (example_request (Some (example_body 2 ''G1'' [example_mutation ''C1'' 1 0])))
        (example_world 0)))
     = Some 500
   \<and> snd (PushHandler example_decode (newDefaultInstance reliable_db apply_all_handler)
        new_response
        (example_request (Some (example_body 2 ''G1'' [example_mutation ''C1'' 1 0])))
        (example_world 0))
     = example_world 0
   \<and> status (fst (PushHandler example_decode (newDefaultInstance reliable_db apply_all_handler)
        new_response
        (example_request (Some (example_body 1 ''G1'' [example_mutation ''C1'' 1 0])))
        (example_world 0)))
     = Some 200
   \<and> status (fst (PushHandler example_decode (newDefaultInstance reliable_db failing_handler)
        new_response
        (example_request (Some (example_body 1 ''G1'' [example_mutation ''C1'' 1 0])))
        (example_world 0)))
     = Some 500"
proof -
  let ?ok = "newDefaultInstance reliable_db apply_all_handler"
  let ?ko = "newDefaultInstance reliable_db failing_handler"
  let ?v2 = "example_request (Some (example_body 2 ''G1'' [example_mutation ''C1'' 1 0]))"
  let ?v1 = "example_request (Some (example_body 1 ''G1'' [example_mutation ''C1'' 1 0]))"
  have v2: "PushVersion (snd (example_decode (Body ?v2))) \<noteq> 1"
    by (simp add: example_unfold)
  have v1: "fst (example_decode (Body ?v1)) = None"
    "PushVersion (snd (example_decode (Body ?v1))) = 1"
    by (simp_all add: example_unfold)
  have ok: "fst (handlePush ?ok (request_info ?v1 (snd (example_decode (Body ?v1))))
              (BodyMutations (snd (example_decode (Body ?v1)))) (example_world 0)) = None"
    by (simp add: handlePush_unfold example_unfold)
  have ko: "fst (handlePush ?ko (request_info ?v1 (snd (example_decode (Body ?v1))))
              (BodyMutations (snd (example_decode (Body ?v1)))) (example_world 0)) \<noteq> None"
    by (simp add: handlePush_unfold example_unfold failing_handler_def)
  have a: "status (fst (PushHandler example_decode ?ok new_response ?v2 (example_world 0)))
            = Some 500
          \<and> snd (PushHandler example_decode ?ok new_response ?v2 (example_world 0))
            = example_world 0"
    using PushHandler_status_codes
      [where decode = example_decode and rep = ?ok and r = ?v2 and w = "example_world 0",
       OF surjective_pairing] v2
    by blast
  have b: "status (fst (PushHandler example_decode ?ok new_response ?v1 (example_world 0)))
            = Some 200"
    using PushHandler_status_codes
      [where decode = example_decode and rep = ?ok and r = ?v1 and w = "example_world 0",
       OF surjective_pairing] v1 ok
    by blast
  have c: "status (fst (PushHandler example_decode ?ko new_response ?v1 (example_world 0)))
            = Some 500"
    using PushHandler_status_codes
      [where decode = example_decode and rep = ?ko and r = ?v1 and w = "example_world 0",
       OF surjective_pairing] v1 ko
    by blast
  from a b c show ?thesis by blast
qed

text \<open>
  C8. The Authorization header is passed through. In every call of the Handler made
  by \<^verbatim>\<open>PushHandler\<close>, the \<^verbatim>\<open>Auth\<close> field of the request is what
  \<^verbatim>\<open>r.Header.Get("Authorization")\<close> returns, unchanged; and the Handler is called,
  once, whenever the body decodes, the version is 1 and the transaction opens,
  whatever that header holds: the code does not check it.
\<close>

theorem PushHandler_forwards_authorization:
  assumes "PushHandler decode rep rw r w = (rw', w')"
  shows "(\<forall>pr. EvHandlePush pr \<in> set (new_events w w')
             \<longrightarrow> Auth pr = Header_Get (Header r) ''Authorization'')
       \<and> (fst (decode (Body r)) = None \<and> PushVersion (snd (decode (Body r))) = 1
            \<and> begin_err (db rep) (length (trace w)) = None
            \<longrightarrow> length (filter is_handle_push (new_events w w')) = 1)"
proof (cases "fst (decode (Body r)) \<noteq> None \<or> PushVersion (snd (decode (Body r))) \<noteq> 1")
  case True
  from PushHandler_rejects [where decode = decode and r = r and rep = rep and rw = rw
      and w = w, OF True] assms True show ?thesis
    by auto
next
  case False
  let ?info = "request_info r (snd (decode (Body r)))"
  let ?ms = "BodyMutations (snd (decode (Body r)))"
  obtain res w1 where hp: "handlePush rep ?info ?ms w = (res, w1)"
    by (cases "handlePush rep ?info ?ms w")
  from False have ok: "fst (decode (Body r)) = None" "PushVersion (snd (decode (Body r))) = 1"
    by auto
  from PushHandler_accepts [where decode = decode and r = r and rw = rw, OF ok hp] assms have w': "w' = w1"
    by simp
  have auth: "Auth (push_request ?info ?ms w) = Header_Get (Header r) ''Authorization''"
    by (simp add: push_request_def ClientInfo.extend_def request_info_def)
  show ?thesis
  proof (cases rule: handlePush_cases [where rep = rep and w = w and info = ?info and ms = ?ms])
    case (begin_fails e')
    from handlePush_begin_fails [OF this, of ?info ?ms] hp w' begin_fails show ?thesis
      by auto
  next
    case (handler_fails e' d')
    from handlePush_handler_fails [OF this] hp w' auth show ?thesis
      by auto
  next
    case (commit_fails e' d')
    from handlePush_commit_fails [OF this] hp w' auth show ?thesis
      by auto
  next
    case (commits d')
    from handlePush_commits [OF this] hp w' auth show ?thesis
      by auto
  qed
qed

text \<open>A run of it: the token of the request is the \<^verbatim>\<open>Auth\<close> the Handler is given.\<close>

theorem PushHandler_forwards_authorization_witness:
  "PushHandler example_decode (newDefaultInstance reliable_db apply_all_handler) new_response
      (example_request (Some (example_body 1 ''G1'' [example_mutation ''C1'' 1 0])))
      (example_world 0)
     = (\<lparr>status = Some 200, written = []\<rparr>,
        \<lparr>durable = \<lparr>clients = [(''C1'', ''G1'', 0)], applied = [''addTodo'']\<rparr>, next_tx = 1,
         trace = [EvBeginTx serializable,
                  EvHandlePush (push_request (example_info ''G1'')
                     [example_mutation ''C1'' 1 0] (example_world 0)),
                  EvCommit 0, EvRollback 0]\<rparr>)
   \<and> Header (example_request (Some (example_body 1 ''G1'' [example_mutation ''C1'' 1 0])))
        ''Authorization'' = Some [''Bearer t0k3n'']
   \<and> Auth (push_request (example_info ''G1'') [example_mutation ''C1'' 1 0] (example_world 0)
            :: Store PushRequest) = ''Bearer t0k3n''"
proof -
  let ?rep = "newDefaultInstance reliable_db apply_all_handler"
  let ?r = "example_request (Some (example_body 1 ''G1'' [example_mutation ''C1'' 1 0]))"
  let ?pr = "push_request (example_info ''G1'') [example_mutation ''C1'' 1 0] (example_world 0)
               :: Store PushRequest"
  let ?w' = "\<lparr>durable = \<lparr>clients = [(''C1'', ''G1'', 0)], applied = [''addTodo'']\<rparr>, next_tx = 1,
         trace = [EvBeginTx serializable, EvHandlePush ?pr, EvCommit 0, EvRollback 0]\<rparr>"
  have run: "PushHandler example_decode ?rep new_response ?r (example_world 0)
               = (\<lparr>status = Some 200, written = []\<rparr>, ?w')"
    by (simp add: PushHandler_unfold handlePush_unfold example_unfold)
  have ev: "EvHandlePush ?pr \<in> set (new_events (example_world 0) ?w')"
    by (simp add: new_events_def example_world_def)
  have hdr: "Header ?r ''Authorization'' = Some [''Bearer t0k3n'']"
    by (simp add: example_request_def)
  have get: "Header_Get (Header ?r) ''Authorization'' = ''Bearer t0k3n''"
    by (simp add: Header_Get_def example_request_def)
  from PushHandler_forwards_authorization [OF run] ev get
  have "Auth ?pr = ''Bearer t0k3n''"
    by metis
  with run hdr show ?thesis by blast
qed

text \<open>
  C10. A malformed request has no effect. When the body does not decode, or the
  decoded \<^verbatim>\<open>pushVersion\<close> is not 1, the endpoint answers 500 with no body and the
  world is exactly as before: no \<^verbatim>\<open>BeginTx\<close>, no call of the Handler, no change of
  the committed data.
\<close>

theorem PushHandler_malformed_no_effect:
  assumes "fst (decode (Body r)) \<noteq> None \<or> PushVersion (snd (decode (Body r))) \<noteq> 1"
  shows "PushHandler decode rep new_response r w = (\<lparr>status = Some 500, written = []\<rparr>, w)
       \<and> filter is_begin (new_events w (snd (PushHandler decode rep new_response r w))) = []
       \<and> filter is_handle_push (new_events w (snd (PushHandler decode rep new_response r w))) = []"
  using PushHandler_rejects [where decode = decode and r = r and rep = rep and rw = new_response
      and w = w, OF assms]
  by (simp add: WriteHeader_def new_response_def StatusInternalServerError_def)

text \<open>Runs of it: a body that is not JSON, and a body without \<^verbatim>\<open>pushVersion\<close> (version 0).\<close>

theorem PushHandler_malformed_no_effect_witness:
  "PushHandler example_decode (newDefaultInstance reliable_db apply_all_handler) new_response
      (example_request None) (example_world 0)
     = (\<lparr>status = Some 500, written = []\<rparr>, example_world 0)
   \<and> PushHandler example_decode (newDefaultInstance reliable_db apply_all_handler) new_response
      (example_request (Some (example_body 0 ''G1'' [example_mutation ''C1'' 1 0])))
      (example_world 0)
     = (\<lparr>status = Some 500, written = []\<rparr>, example_world 0)"
proof -
  let ?rep = "newDefaultInstance reliable_db apply_all_handler"
  let ?bad = "example_request None"
  let ?v0 = "example_request (Some (example_body 0 ''G1'' [example_mutation ''C1'' 1 0]))"
  have bad: "fst (example_decode (Body ?bad)) \<noteq> None
      \<or> PushVersion (snd (example_decode (Body ?bad))) \<noteq> 1"
    by (simp add: example_unfold)
  have v0: "fst (example_decode (Body ?v0)) \<noteq> None
      \<or> PushVersion (snd (example_decode (Body ?v0))) \<noteq> 1"
    by (simp add: example_unfold)
  from PushHandler_malformed_no_effect
         [where decode = example_decode and r = ?bad and rep = ?rep and w = "example_world 0",
          OF bad]
       PushHandler_malformed_no_effect
         [where decode = example_decode and r = ?v0 and rep = ?rep and w = "example_world 0",
          OF v0]
  show ?thesis by blast
qed

section \<open>Timestamps\<close>

lemma push_request_erase:
  "(push_request info ms w)\<lparr>Mutations := map erase_timestamp (Mutations (push_request info ms w))\<rparr>
     = push_request info (map erase_timestamp ms) w"
  by (simp add: push_request_def ClientInfo.extend_def)

text \<open>
  C9. Timestamp noninterference. The code never reads \<^verbatim>\<open>Timestamp\<close>; it hands the
  mutations to the Handler as they came. For two batches that are equal up to the
  timestamps of their mutations, pushed in the same world: the two pushes make the
  same \<^verbatim>\<open>BeginTx\<close> call, and the Handler is called in both or in neither, with
  requests that are equal up to those timestamps (the same mutations in the same
  order). What follows the Handler's call is decided by the Handler's answer, which
  is an input to the core: when the Handler answers the two requests alike (as
  every Handler that does not read the timestamps does), the push returns the same
  error or success, leaves the same committed data and makes the same calls in the
  same order.
\<close>

theorem handlePush_timestamp_blind:
  assumes same: "map erase_timestamp ms = map erase_timestamp ms'"
  shows "filter is_begin (new_events w (snd (handlePush rep info ms w)))
           = filter is_begin (new_events w (snd (handlePush rep info ms' w)))
       \<and> map erase_event (filter is_handle_push (new_events w (snd (handlePush rep info ms w))))
           = map erase_event
               (filter is_handle_push (new_events w (snd (handlePush rep info ms' w))))
       \<and> (handler rep (push_request info ms w) = handler rep (push_request info ms' w)
          \<longrightarrow> fst (handlePush rep info ms w) = fst (handlePush rep info ms' w)
            \<and> durable (snd (handlePush rep info ms w))
                = durable (snd (handlePush rep info ms' w))
            \<and> next_tx (snd (handlePush rep info ms w))
                = next_tx (snd (handlePush rep info ms' w))
            \<and> map erase_event (trace (snd (handlePush rep info ms w)))
                = map erase_event (trace (snd (handlePush rep info ms' w))))"
proof -
  have calls: "filter is_begin (new_events w (snd (handlePush rep info bs w)))
                 = [EvBeginTx serializable]
      \<and> filter is_handle_push (new_events w (snd (handlePush rep info bs w)))
                 = (if begin_err (db rep) (length (trace w)) = None
                    then [EvHandlePush (push_request info bs w)] else [])" for bs
  proof (cases rule: handlePush_cases [where rep = rep and w = w and info = info and ms = bs])
    case (begin_fails e)
    from handlePush_begin_fails [OF this, of info bs] begin_fails show ?thesis by simp
  next
    case (handler_fails e d')
    from handlePush_handler_fails [OF this] handler_fails show ?thesis by simp
  next
    case (commit_fails e d')
    from handlePush_commit_fails [OF this] commit_fails show ?thesis by simp
  next
    case (commits d')
    from handlePush_commits [OF this] commits show ?thesis by simp
  qed
  have outcome: "fst (handlePush rep info ms w) = fst (handlePush rep info ms' w)
            \<and> durable (snd (handlePush rep info ms w))
                = durable (snd (handlePush rep info ms' w))
            \<and> next_tx (snd (handlePush rep info ms w))
                = next_tx (snd (handlePush rep info ms' w))
            \<and> map erase_event (trace (snd (handlePush rep info ms w)))
                = map erase_event (trace (snd (handlePush rep info ms' w)))"
    if answer: "handler rep (push_request info ms w) = handler rep (push_request info ms' w)"
  proof (cases rule: handlePush_cases [where rep = rep and w = w and info = info and ms = ms])
    case (begin_fails e)
    from handlePush_begin_fails [OF this, of info ms] handlePush_begin_fails [OF this, of info ms']
    show ?thesis by simp
  next
    case (handler_fails e d')
    from handler_fails answer have "handler rep (push_request info ms' w) = (Some e, d')"
      by simp
    from handlePush_handler_fails [OF handler_fails]
      handlePush_handler_fails [OF handler_fails(1) this]
    show ?thesis by (simp add: push_request_erase same)
  next
    case (commit_fails e d')
    from commit_fails answer have "handler rep (push_request info ms' w) = (None, d')"
      by simp
    from handlePush_commit_fails [OF commit_fails]
      handlePush_commit_fails [OF commit_fails(1) this commit_fails(3)]
    show ?thesis by (simp add: push_request_erase same)
  next
    case (commits d')
    from commits answer have "handler rep (push_request info ms' w) = (None, d')"
      by simp
    from handlePush_commits [OF commits] handlePush_commits [OF commits(1) this commits(3)]
    show ?thesis by (simp add: push_request_erase same)
  qed
  from calls [of ms] calls [of ms'] outcome show ?thesis
    by (simp add: push_request_erase same)
qed

text \<open>A run of it: two batches that differ in both timestamps.\<close>

theorem handlePush_timestamp_blind_witness:
  "map erase_timestamp [example_mutation ''C1'' 1 0, example_mutation ''C1'' 2 5]
     = map erase_timestamp [example_mutation ''C1'' 1 1700000000000, example_mutation ''C1'' 2 3]
   \<and> fst (handlePush (newDefaultInstance reliable_db apply_all_handler) (example_info ''G1'')
            [example_mutation ''C1'' 1 0, example_mutation ''C1'' 2 5] (example_world 0))
     = fst (handlePush (newDefaultInstance reliable_db apply_all_handler) (example_info ''G1'')
            [example_mutation ''C1'' 1 1700000000000, example_mutation ''C1'' 2 3]
            (example_world 0))
   \<and> durable (snd (handlePush (newDefaultInstance reliable_db apply_all_handler)
            (example_info ''G1'')
            [example_mutation ''C1'' 1 0, example_mutation ''C1'' 2 5] (example_world 0)))
     = durable (snd (handlePush (newDefaultInstance reliable_db apply_all_handler)
            (example_info ''G1'')
            [example_mutation ''C1'' 1 1700000000000, example_mutation ''C1'' 2 3]
            (example_world 0)))"
proof -
  let ?rep = "newDefaultInstance reliable_db apply_all_handler"
  let ?ms = "[example_mutation ''C1'' 1 0, example_mutation ''C1'' 2 5]"
  let ?ms' = "[example_mutation ''C1'' 1 1700000000000, example_mutation ''C1'' 2 3]"
  have same: "map erase_timestamp ?ms = map erase_timestamp ?ms'"
    by (simp add: erase_timestamp_def example_mutation_def)
  have answer: "handler ?rep (push_request (example_info ''G1'') ?ms (example_world 0))
      = handler ?rep (push_request (example_info ''G1'') ?ms' (example_world 0))"
    by (simp add: newDefaultInstance_def apply_all_handler_def push_request_def
        ClientInfo.extend_def example_mutation_def)
  from handlePush_timestamp_blind [OF same] answer same show ?thesis
    by blast
qed

section \<open>Retries, gaps and client resolution\<close>

text \<open>
  \<^verbatim>\<open>handlePush\<close> has no loop over the mutations and reads no field of them: the
  whole batch goes to one \<^verbatim>\<open>HandlePush\<close> call.
\<close>







text \<open>
  C4 against the code. The code resolves no client: where the resolution would be,
  \<^verbatim>\<open>handlePush\<close> has the comment
  \<^verbatim>\<open>TODO: check all clientIDs for mutations exist in client group or add them if createOnPush is true\<close>.
  A push for group \<open>G2\<close> with a mutation of client \<open>C1\<close>, a member of group \<open>G1\<close>,
  and one of the unknown client \<open>C9\<close>, is answered 200: the only calls are
  \<^verbatim>\<open>BeginTx\<close>, \<^verbatim>\<open>HandlePush\<close>, \<^verbatim>\<open>Commit\<close> and the deferred \<^verbatim>\<open>Rollback\<close>, both mutations
  are applied and committed, and no client is created.
\<close>

theorem handlePush_client_of_other_group_accepted:
  "handlePush (newDefaultInstance reliable_db apply_all_handler) (example_info ''G2'')
      [example_mutation ''C1'' 1 0, example_mutation ''C9'' 1 0] (example_world 0)
     = (None,
        \<lparr>durable = \<lparr>clients = [(''C1'', ''G1'', 0)], applied = [''addTodo'', ''addTodo'']\<rparr>,
         next_tx = 1,
         trace = [EvBeginTx serializable,
                  EvHandlePush (push_request (example_info ''G2'')
                     [example_mutation ''C1'' 1 0, example_mutation ''C9'' 1 0]
                     (example_world 0)),
                  EvCommit 0, EvRollback 0]\<rparr>)"
  by (simp add: handlePush_unfold example_unfold)

text \<open>The same push through the endpoint.\<close>

lemma PushHandler_client_of_other_group_accepted:
  "PushHandler example_decode (newDefaultInstance reliable_db apply_all_handler) new_response
      (example_request (Some (example_body 1 ''G2''
         [example_mutation ''C1'' 1 0, example_mutation ''C9'' 1 0])))
      (example_world 0)
     = (\<lparr>status = Some 200, written = []\<rparr>,
        \<lparr>durable = \<lparr>clients = [(''C1'', ''G1'', 0)], applied = [''addTodo'', ''addTodo'']\<rparr>,
         next_tx = 1,
         trace = [EvBeginTx serializable,
                  EvHandlePush (push_request (example_info ''G2'')
                     [example_mutation ''C1'' 1 0, example_mutation ''C9'' 1 0]
                     (example_world 0)),
                  EvCommit 0, EvRollback 0]\<rparr>)"
  by (simp add: PushHandler_unfold handlePush_unfold example_unfold)

end
